theory Spec2Isabelle
  imports Complex_Main
begin

section \<open>Fitness tracker: workouts, their metrics and the report line\<close>

text \<open>
  The embedding follows \<^verbatim>\<open>homework.py\<close>.

  Numbers. The fields of a workout and every derived metric are Python numbers
  (\<^verbatim>\<open>int\<close> or \<^verbatim>\<open>float\<close>). They are modelled as exact rationals: an
  arithmetic operation of the source is the same operation on \<^typ>\<open>rat\<close>. The rounding
  of binary64 arithmetic, its overflow, and the values \<^verbatim>\<open>inf\<close> and \<^verbatim>\<open>nan\<close>
  are outside this number model. The one arithmetic failure that is modelled is the
  \<^verbatim>\<open>ZeroDivisionError\<close> of \<^verbatim>\<open>/\<close>.

  Strings. A Python \<^verbatim>\<open>str\<close> is a sequence of Unicode code points, modelled as a list
  of natural numbers; \<open>ascii\<close> embeds an ASCII literal.

  Exceptions. A function that can raise returns \<open>error + 'a\<close>, with \<open>Inl\<close> the
  exception that propagates to the caller.
\<close>

subsection \<open>Exceptions and strings\<close>

datatype error = NotImplementedError | ValueError | TypeError | ZeroDivisionError

type_synonym 'a result = "error + 'a"

definition bind_result :: "'a result \<Rightarrow> ('a \<Rightarrow> 'b result) \<Rightarrow> 'b result" where
  "bind_result r f = (case r of Inl e \<Rightarrow> Inl e | Inr v \<Rightarrow> f v)"

type_synonym pystr = "nat list"

definition ascii :: "string \<Rightarrow> pystr" where
  "ascii s = map of_char s"

text \<open>True division \<^verbatim>\<open>a / b\<close>: raises on a zero divisor.\<close>

definition truediv :: "rat \<Rightarrow> rat \<Rightarrow> rat result" where
  "truediv a b = (if b = 0 then Inl ZeroDivisionError else Inr (a / b))"

subsection \<open>Formatting a number with the format specification \<^verbatim>\<open>.3f\<close>\<close>

text \<open>
  \<^verbatim>\<open>str.format\<close> with \<^verbatim>\<open>.3f\<close> renders the exact value of the number in fixed-point
  notation, correctly rounded to three fractional digits with ties going to the even
  neighbour, and keeps the minus sign of a negative value that rounds to zero.
\<close>

definition round_half_even :: "rat \<Rightarrow> int" where
  "round_half_even x =
     (let f = \<lfloor>x\<rfloor>; r = x - of_int f
      in if r < 1 / 2 then f
         else if 1 / 2 < r then f + 1
         else if even f then f else f + 1)"

definition digit_char :: "nat \<Rightarrow> nat" where
  "digit_char d = 48 + d"

fun decimal :: "nat \<Rightarrow> pystr" where
  "decimal n = (if n < 10 then [digit_char n]
                else decimal (n div 10) @ [digit_char (n mod 10)])"

declare decimal.simps [simp del]


definition format_3f :: "rat \<Rightarrow> pystr" where
  "format_3f x =
     (let n = nat (round_half_even (\<bar>x\<bar> * 1000))
      in (if x < 0 then ascii ''-'' else [])
         @ decimal (n div 1000) @ ascii ''.''
         @ [digit_char (n div 100 mod 10), digit_char (n div 10 mod 10), digit_char (n mod 10)])"

subsection \<open>InfoMessage\<close>

text \<open>
  The dataclass \<^verbatim>\<open>InfoMessage\<close>. Its field \<^verbatim>\<open>duration\<close> is named \<open>msg_duration\<close>
  here, since \<open>duration\<close> is the field of a workout below.
\<close>

record info_message =
  training_type :: pystr
  msg_duration :: rat
  distance :: rat
  speed :: rat
  calories :: rat

text \<open>
  The class constant \<^verbatim>\<open>MESSAGE\<close> as its sequence of literal pieces and replacement
  fields. A replacement field names the entry of \<^verbatim>\<open>asdict(self)\<close> it reads, which is
  the field of the record; \<open>Field_str\<close> is a field without a format specification
  holding a string, \<open>Field_3f\<close> a field with the specification \<^verbatim>\<open>.3f\<close>.
  The literal pieces are, in this order (code points; the Cyrillic letters are
  U+0410 to U+044F):
  \<^verbatim>\<open>"<U+0422 U+0438 U+043F> <...>: "\<close>, \<^verbatim>\<open>"; <...>: "\<close>, \<^verbatim>\<open>" <U+0447>.; <...>: "\<close>,
  \<^verbatim>\<open>" <U+043A U+043C>; <...>. <...>: "\<close>, \<^verbatim>\<open>" <U+043A U+043C>/<U+0447>; <...> <...>: "\<close>
  and \<^verbatim>\<open>"."\<close>.
\<close>

datatype piece = Lit pystr | Field_str "info_message \<Rightarrow> pystr" | Field_3f "info_message \<Rightarrow> rat"

definition MESSAGE_type :: pystr where
  "MESSAGE_type =
     [1058, 1080, 1087, 32, 1090, 1088, 1077, 1085, 1080, 1088, 1086, 1074, 1082, 1080, 58, 32]"

definition MESSAGE_duration :: pystr where
  "MESSAGE_duration =
     [59, 32, 1044, 1083, 1080, 1090, 1077, 1083, 1100, 1085, 1086, 1089, 1090, 1100, 58, 32]"

definition MESSAGE_distance :: pystr where
  "MESSAGE_distance =
     [32, 1095, 46, 59, 32, 1044, 1080, 1089, 1090, 1072, 1085, 1094, 1080, 1103, 58, 32]"

definition MESSAGE_speed :: pystr where
  "MESSAGE_speed =
     [32, 1082, 1084, 59, 32, 1057, 1088, 46, 32, 1089, 1082, 1086, 1088, 1086, 1089, 1090,
      1100, 58, 32]"

definition MESSAGE_calories :: pystr where
  "MESSAGE_calories =
     [32, 1082, 1084, 47, 1095, 59, 32, 1055, 1086, 1090, 1088, 1072, 1095, 1077, 1085, 1086,
      32, 1082, 1082, 1072, 1083, 58, 32]"

definition MESSAGE_end :: pystr where
  "MESSAGE_end = [46]"

definition MESSAGE :: "piece list" where
  "MESSAGE =
     [Lit MESSAGE_type, Field_str training_type,
      Lit MESSAGE_duration, Field_3f msg_duration,
      Lit MESSAGE_distance, Field_3f distance,
      Lit MESSAGE_speed, Field_3f speed,
      Lit MESSAGE_calories, Field_3f calories,
      Lit MESSAGE_end]"

fun render :: "info_message \<Rightarrow> piece \<Rightarrow> pystr" where
  "render m (Lit s) = s"
| "render m (Field_str f) = f m"
| "render m (Field_3f f) = format_3f (f m)"

definition get_message :: "info_message \<Rightarrow> pystr" where
  "get_message m = concat (map (render m) MESSAGE)"

subsection \<open>Training and its subclasses\<close>

text \<open>
  One constructor per class; a subclass repeats the inherited fields in the order of the
  generated \<^verbatim>\<open>__init__\<close>. The base class is a dataclass too and can be instantiated.
\<close>

datatype training =
    Training (action: rat) (duration: rat) (weight: rat)
  | Running (action: rat) (duration: rat) (weight: rat)
  | SportsWalking (action: rat) (duration: rat) (weight: rat) (height: rat)
  | Swimming (action: rat) (duration: rat) (weight: rat) (length_pool: rat) (count_pool: rat)

text \<open>\<^verbatim>\<open>self.__class__.__name__\<close>\<close>

fun class_name :: "training \<Rightarrow> pystr" where
  "class_name (Training _ _ _) = ascii ''Training''"
| "class_name (Running _ _ _) = ascii ''Running''"
| "class_name (SportsWalking _ _ _ _) = ascii ''SportsWalking''"
| "class_name (Swimming _ _ _ _ _) = ascii ''Swimming''"

text \<open>Class constants. \<^verbatim>\<open>LEN_STEP\<close> is looked up on the instance: Swimming overrides it.\<close>

fun LEN_STEP :: "training \<Rightarrow> rat" where
  "LEN_STEP (Swimming _ _ _ _ _) = 1.38"
| "LEN_STEP _ = 0.65"

definition M_IN_KM :: rat where "M_IN_KM = 1000"
definition MIN_IN_H :: rat where "MIN_IN_H = 60"

definition Running_CALORIES_MEAN_SPEED_MULTIPLIER :: rat where
  "Running_CALORIES_MEAN_SPEED_MULTIPLIER = 18"
definition Running_CALORIES_MEAN_SPEED_SHIFT :: rat where
  "Running_CALORIES_MEAN_SPEED_SHIFT = 1.79"

definition SportsWalking_CALORIES_MEAN_SPEED_MULTIPLIER :: rat where
  "SportsWalking_CALORIES_MEAN_SPEED_MULTIPLIER = 0.035"
definition SportsWalking_CALORIES_MEAN_SPEED_SHIFT :: rat where
  "SportsWalking_CALORIES_MEAN_SPEED_SHIFT = 0.029"
definition M_IN_SEC :: rat where "M_IN_SEC = 0.278"

text \<open>The source writes the first letter of this name as the Cyrillic letter U+0421.\<close>

definition CM_IN_M :: rat where "CM_IN_M = 100"

definition Swimming_CALORIES_MEAN_SPEED_MULTIPLIER :: rat where
  "Swimming_CALORIES_MEAN_SPEED_MULTIPLIER = 1.1"
definition Swimming_CALORIES_MEAN_SPEED_SHIFT :: rat where
  "Swimming_CALORIES_MEAN_SPEED_SHIFT = 2"

text \<open>\<^verbatim>\<open>Training.get_distance\<close>, inherited by every subclass.\<close>

definition get_distance :: "training \<Rightarrow> rat result" where
  "get_distance t = truediv (action t * LEN_STEP t) M_IN_KM"

text \<open>\<^verbatim>\<open>get_mean_speed\<close>: the base method, the override of Swimming, and the dispatch.\<close>

definition Training_get_mean_speed :: "training \<Rightarrow> rat result" where
  "Training_get_mean_speed t =
     bind_result (get_distance t) (\<lambda>d. truediv d (duration t))"

definition Swimming_get_mean_speed :: "training \<Rightarrow> rat result" where
  "Swimming_get_mean_speed t =
     bind_result (truediv (length_pool t * count_pool t) M_IN_KM)
       (\<lambda>x. truediv x (duration t))"

fun get_mean_speed :: "training \<Rightarrow> rat result" where
  "get_mean_speed (Swimming a d w l c) = Swimming_get_mean_speed (Swimming a d w l c)"
| "get_mean_speed t = Training_get_mean_speed t"

text \<open>\<^verbatim>\<open>get_spent_calories\<close>: the base method raises; each subclass overrides it.\<close>

definition Training_get_spent_calories :: "training \<Rightarrow> rat result" where
  "Training_get_spent_calories t = Inl NotImplementedError"

definition Running_get_spent_calories :: "training \<Rightarrow> rat result" where
  "Running_get_spent_calories t =
     bind_result (get_mean_speed t) (\<lambda>ms.
     bind_result (truediv ((Running_CALORIES_MEAN_SPEED_MULTIPLIER * ms
                            + Running_CALORIES_MEAN_SPEED_SHIFT) * weight t) M_IN_KM) (\<lambda>x.
     Inr (x * duration t * MIN_IN_H)))"

definition SportsWalking_get_spent_calories :: "training \<Rightarrow> rat result" where
  "SportsWalking_get_spent_calories t =
     bind_result (get_mean_speed t) (\<lambda>ms.
     bind_result (truediv (height t) CM_IN_M) (\<lambda>h.
     bind_result (truediv ((ms * M_IN_SEC) ^ 2) h) (\<lambda>q.
     Inr ((SportsWalking_CALORIES_MEAN_SPEED_MULTIPLIER * weight t
           + q * SportsWalking_CALORIES_MEAN_SPEED_SHIFT * weight t)
          * duration t * MIN_IN_H))))"

definition Swimming_get_spent_calories :: "training \<Rightarrow> rat result" where
  "Swimming_get_spent_calories t =
     bind_result (get_mean_speed t) (\<lambda>ms.
     Inr ((ms + Swimming_CALORIES_MEAN_SPEED_MULTIPLIER)
          * Swimming_CALORIES_MEAN_SPEED_SHIFT * weight t * duration t))"

fun get_spent_calories :: "training \<Rightarrow> rat result" where
  "get_spent_calories (Training a d w) = Training_get_spent_calories (Training a d w)"
| "get_spent_calories (Running a d w) = Running_get_spent_calories (Running a d w)"
| "get_spent_calories (SportsWalking a d w h) =
     SportsWalking_get_spent_calories (SportsWalking a d w h)"
| "get_spent_calories (Swimming a d w l c) =
     Swimming_get_spent_calories (Swimming a d w l c)"

text \<open>
  \<^verbatim>\<open>show_training_info\<close>: the arguments of the constructor are evaluated from left to
  right, and the first exception propagates.
\<close>

definition show_training_info :: "training \<Rightarrow> info_message result" where
  "show_training_info t =
     bind_result (get_distance t) (\<lambda>d.
     bind_result (get_mean_speed t) (\<lambda>s.
     bind_result (get_spent_calories t) (\<lambda>c.
     Inr \<lparr>training_type = class_name t, msg_duration = duration t,
          distance = d, speed = s, calories = c\<rparr>)))"

subsection \<open>Reading a package and printing the report\<close>

datatype workout_class = Swimming_class | Running_class | SportsWalking_class

definition WORKOUT_TYPES :: "pystr \<rightharpoonup> workout_class" where
  "WORKOUT_TYPES =
     map_of [(ascii ''SWM'', Swimming_class),
             (ascii ''RUN'', Running_class),
             (ascii ''WLK'', SportsWalking_class)]"

text \<open>
  Calling a class with \<^verbatim>\<open>*data\<close>: the generated \<^verbatim>\<open>__init__\<close> takes exactly the fields
  of the class as positional arguments, and any other number of arguments raises
  \<^verbatim>\<open>TypeError\<close>.
\<close>

definition construct :: "workout_class \<Rightarrow> rat list \<Rightarrow> training result" where
  "construct cls data =
     (case cls of
        Swimming_class \<Rightarrow>
          (case data of [a, d, w, l, c] \<Rightarrow> Inr (Swimming a d w l c) | _ \<Rightarrow> Inl TypeError)
      | Running_class \<Rightarrow>
          (case data of [a, d, w] \<Rightarrow> Inr (Running a d w) | _ \<Rightarrow> Inl TypeError)
      | SportsWalking_class \<Rightarrow>
          (case data of [a, d, w, h] \<Rightarrow> Inr (SportsWalking a d w h) | _ \<Rightarrow> Inl TypeError))"

definition read_package :: "pystr \<Rightarrow> rat list \<Rightarrow> training result" where
  "read_package workout_type data =
     (case WORKOUT_TYPES workout_type of
        Some cls \<Rightarrow> construct cls data
      | None \<Rightarrow> Inl ValueError)"

text \<open>\<^verbatim>\<open>main\<close> prints one line; the model returns the line printed.\<close>

definition main :: "training \<Rightarrow> pystr result" where
  "main t = bind_result (show_training_info t) (\<lambda>info. Inr (get_message info))"

text \<open>
  The loop of the script over the packages: the lines printed so far, and the exception
  that ended the run, if any.
\<close>

fun run :: "(pystr \<times> rat list) list \<Rightarrow> pystr list \<times> error option" where
  "run [] = ([], None)"
| "run ((workout_type, data) # packages) =
     (case bind_result (read_package workout_type data) main of
        Inl e \<Rightarrow> ([], Some e)
      | Inr line \<Rightarrow> (case run packages of (lines, e) \<Rightarrow> (line # lines, e)))"

definition packages :: "(pystr \<times> rat list) list" where
  "packages =
     [(ascii ''SWM'', [720, 1, 80, 25, 40]),
      (ascii ''RUN'', [15000, 1, 75]),
      (ascii ''WLK'', [9000, 1, 75, 180])]"

subsection \<open>Properties of a report line\<close>

text \<open>
  The template as section 4.2 of the specification words it, to be compared with
  \<open>get_message\<close>.
\<close>

definition spec_get_message :: "info_message \<Rightarrow> pystr" where
  "spec_get_message m =
     ascii ''Workout type: '' @ training_type m
     @ ascii ''; Duration: '' @ format_3f (msg_duration m)
     @ ascii '' h; Distance: '' @ format_3f (distance m)
     @ ascii '' km; Avg speed: '' @ format_3f (speed m)
     @ ascii '' km/h; Calories: '' @ format_3f (calories m)
     @ ascii ''.''"





section \<open>Evaluation and basic facts\<close>

lemmas consts_defs = M_IN_KM_def MIN_IN_H_def Running_CALORIES_MEAN_SPEED_MULTIPLIER_def
  Running_CALORIES_MEAN_SPEED_SHIFT_def SportsWalking_CALORIES_MEAN_SPEED_MULTIPLIER_def
  SportsWalking_CALORIES_MEAN_SPEED_SHIFT_def M_IN_SEC_def CM_IN_M_def
  Swimming_CALORIES_MEAN_SPEED_MULTIPLIER_def Swimming_CALORIES_MEAN_SPEED_SHIFT_def

lemma decimal_numeral:
  "decimal (numeral k) =
     (if (numeral k :: nat) < 10 then [digit_char (numeral k)]
      else decimal (numeral k div 10) @ [digit_char (numeral k mod 10)])"
  by (rule decimal.simps)

lemma decimal_0: "decimal 0 = [digit_char 0]"
  by (simp add: decimal.simps)

lemma decimal_Suc_0: "decimal (Suc 0) = [digit_char 1]"
  by (simp add: decimal.simps)

lemma floor_numeral_divide:
  "\<lfloor>(numeral a :: rat) / numeral b\<rfloor> = numeral a div numeral b"
  using floor_divide_of_int_eq [of "numeral a" "numeral b", where ?'a = rat] by simp

lemmas format_eval = format_3f_def round_half_even_def Let_def decimal_numeral decimal_0
  decimal_Suc_0 digit_char_def ascii_def floor_numeral_divide power_divide

lemma bind_result_Inr [simp]: "bind_result (Inr v) f = f v"
  by (simp add: bind_result_def)

lemma bind_result_Inl [simp]: "bind_result (Inl e) f = Inl e"
  by (simp add: bind_result_def)

lemma truediv_nonzero: "b \<noteq> 0 \<Longrightarrow> truediv a b = Inr (a / b)"
  by (simp add: truediv_def)

lemma truediv_zero: "truediv a 0 = Inl ZeroDivisionError"
  by (simp add: truediv_def)

lemma get_distance_value: "get_distance t = Inr (action t * LEN_STEP t / 1000)"
  by (simp add: get_distance_def M_IN_KM_def truediv_nonzero)

lemma get_mean_speed_Running:
  "d \<noteq> 0 \<Longrightarrow> get_mean_speed (Running a d w) = Inr (a * 0.65 / 1000 / d)"
  by (simp add: Training_get_mean_speed_def get_distance_value truediv_nonzero)

lemma get_mean_speed_SportsWalking:
  "d \<noteq> 0 \<Longrightarrow> get_mean_speed (SportsWalking a d w h) = Inr (a * 0.65 / 1000 / d)"
  by (simp add: Training_get_mean_speed_def get_distance_value truediv_nonzero)

lemma get_mean_speed_Swimming:
  "d \<noteq> 0 \<Longrightarrow> get_mean_speed (Swimming a d w l c) = Inr (l * c / 1000 / d)"
  by (simp add: Swimming_get_mean_speed_def M_IN_KM_def truediv_nonzero)

lemma truediv_error: "truediv a b = Inl e \<Longrightarrow> e = ZeroDivisionError"
  by (simp add: truediv_def split: if_splits)

lemma bind_result_error:
  "bind_result r f = Inl e \<Longrightarrow> r = Inl e \<or> (\<exists>v. r = Inr v \<and> f v = Inl e)"
  by (cases r) simp_all

lemma get_mean_speed_error: "get_mean_speed t = Inl e \<Longrightarrow> e = ZeroDivisionError"
  by (cases t)
    (auto simp: Training_get_mean_speed_def Swimming_get_mean_speed_def get_distance_value
      dest!: bind_result_error dest: truediv_error)

lemma Running_get_spent_calories_error:
  "Running_get_spent_calories t = Inl e \<Longrightarrow> e = ZeroDivisionError"
  by (auto simp: Running_get_spent_calories_def
      dest!: bind_result_error dest: truediv_error get_mean_speed_error)

lemma SportsWalking_get_spent_calories_error:
  "SportsWalking_get_spent_calories t = Inl e \<Longrightarrow> e = ZeroDivisionError"
  by (auto simp: SportsWalking_get_spent_calories_def
      dest!: bind_result_error dest: truediv_error get_mean_speed_error)

lemma Swimming_get_spent_calories_error:
  "Swimming_get_spent_calories t = Inl e \<Longrightarrow> e = ZeroDivisionError"
  by (auto simp: Swimming_get_spent_calories_def
      dest!: bind_result_error dest: truediv_error get_mean_speed_error)

lemma WORKOUT_TYPES_None:
  "WORKOUT_TYPES k = None \<longleftrightarrow>
     k \<noteq> ascii ''SWM'' \<and> k \<noteq> ascii ''RUN'' \<and> k \<noteq> ascii ''WLK''"
  by (auto simp: WORKOUT_TYPES_def ascii_def)

lemma construct_Inr:
  "construct cls data = Inr t \<Longrightarrow>
     (\<exists>a d w l c. t = Swimming a d w l c) \<or> (\<exists>a d w. t = Running a d w)
     \<or> (\<exists>a d w h. t = SportsWalking a d w h)"
  by (auto simp: construct_def split: workout_class.splits list.splits)

lemma read_package_Inr:
  "read_package k data = Inr t \<Longrightarrow>
     (\<exists>a d w l c. t = Swimming a d w l c) \<or> (\<exists>a d w. t = Running a d w)
     \<or> (\<exists>a d w h. t = SportsWalking a d w h)"
  by (auto simp: read_package_def split: option.splits dest: construct_Inr)

lemma length_3: "length xs = 3 \<longleftrightarrow> (\<exists>a b c. xs = [a, b, c])"
  by (auto simp: length_Suc_conv eval_nat_numeral)

lemma length_4: "length xs = 4 \<longleftrightarrow> (\<exists>a b c d. xs = [a, b, c, d])"
  by (auto simp: length_Suc_conv eval_nat_numeral)

lemma length_5: "length xs = 5 \<longleftrightarrow> (\<exists>a b c d e. xs = [a, b, c, d, e])"
  by (auto simp: length_Suc_conv eval_nat_numeral)

lemma construct_Swimming:
  "construct Swimming_class data =
     (if length data = 5
      then Inr (Swimming (data ! 0) (data ! 1) (data ! 2) (data ! 3) (data ! 4))
      else Inl TypeError)"
  by (auto simp: construct_def length_5 split: list.splits)

lemma construct_Running:
  "construct Running_class data =
     (if length data = 3 then Inr (Running (data ! 0) (data ! 1) (data ! 2))
      else Inl TypeError)"
  by (auto simp: construct_def length_3 split: list.splits)

lemma construct_SportsWalking:
  "construct SportsWalking_class data =
     (if length data = 4
      then Inr (SportsWalking (data ! 0) (data ! 1) (data ! 2) (data ! 3))
      else Inl TypeError)"
  by (auto simp: construct_def length_4 split: list.splits)

lemma read_package_samples:
  "read_package (ascii ''SWM'') [720, 1, 80, 25, 40] = Inr (Swimming 720 1 80 25 40)"
  "read_package (ascii ''RUN'') [15000, 1, 75] = Inr (Running 15000 1 75)"
  "read_package (ascii ''WLK'') [9000, 1, 75, 180] = Inr (SportsWalking 9000 1 75 180)"
  by (simp_all add: read_package_def WORKOUT_TYPES_def construct_def ascii_def)







lemma get_message_eq:
  "get_message m =
     MESSAGE_type @ training_type m
     @ MESSAGE_duration @ format_3f (msg_duration m)
     @ MESSAGE_distance @ format_3f (distance m)
     @ MESSAGE_speed @ format_3f (speed m)
     @ MESSAGE_calories @ format_3f (calories m)
     @ MESSAGE_end"
  by (simp add: get_message_def MESSAGE_def)


















lemma show_training_info_Inr:
  "show_training_info t = Inr m \<Longrightarrow>
     training_type m = class_name t \<and> msg_duration m = duration t
     \<and> get_distance t = Inr (distance m) \<and> get_mean_speed t = Inr (speed m)
     \<and> get_spent_calories t = Inr (calories m)"
  unfolding show_training_info_def
  by (cases "get_distance t"; cases "get_mean_speed t"; cases "get_spent_calories t") auto

lemma show_training_info_Swimming_sample:
  "show_training_info (Swimming 720 1 80 25 40)
     = Inr \<lparr>training_type = ascii ''Swimming'', msg_duration = 1, distance = 0.9936,
            speed = 1, calories = 336\<rparr>"
  by (simp add: show_training_info_def get_distance_value get_mean_speed_Swimming
      Swimming_get_spent_calories_def consts_defs del: get_mean_speed.simps)

lemma show_training_info_Running_sample:
  "show_training_info (Running 15000 1 75)
     = Inr \<lparr>training_type = ascii ''Running'', msg_duration = 1, distance = 9.75,
            speed = 9.75, calories = 797.805\<rparr>"
  by (simp add: show_training_info_def get_distance_value get_mean_speed_Running
      Running_get_spent_calories_def truediv_nonzero consts_defs del: get_mean_speed.simps)

lemma show_training_info_SportsWalking_sample:
  "show_training_info (SportsWalking 9000 1 75 180)
     = Inr \<lparr>training_type = ascii ''SportsWalking'', msg_duration = 1, distance = 5.85,
            speed = 5.85, calories = 349.251747525\<rparr>"
  by (simp add: show_training_info_def get_distance_value get_mean_speed_SportsWalking
      SportsWalking_get_spent_calories_def truediv_nonzero consts_defs power_divide
      del: get_mean_speed.simps)

lemma main_Inr:
  "main t = Inr line \<Longrightarrow> \<exists>m. show_training_info t = Inr m \<and> line = get_message m"
  by (cases "show_training_info t") (auto simp: main_def)

lemma bind_main_Inr:
  "bind_result (read_package k data) main = Inr line \<Longrightarrow>
   \<exists>t m. read_package k data = Inr t \<and> show_training_info t = Inr m \<and> line = get_message m"
  by (cases "read_package k data") (auto dest: main_Inr)

lemma run_lines:
  "run ps = (lines, None) \<Longrightarrow>
   list_all2 (\<lambda>p line. bind_result (read_package (fst p) (snd p)) main = Inr line) ps lines"
proof (induction ps arbitrary: lines)
  case Nil
  then show ?case by simp
next
  case (Cons p ps)
  obtain k data where p: "p = (k, data)" by (cases p)
  from Cons.prems obtain line rest where
    l: "bind_result (read_package k data) main = Inr line"
    and r: "run ps = (rest, None)" and e: "lines = line # rest"
    unfolding p by (auto split: sum.splits prod.splits)
  from Cons.IH [OF r] l show ?case
    by (simp add: p e)
qed

lemma run_packages:
  "run packages =
     ([get_message \<lparr>training_type = ascii ''Swimming'', msg_duration = 1, distance = 0.9936,
            speed = 1, calories = 336\<rparr>,
       get_message \<lparr>training_type = ascii ''Running'', msg_duration = 1, distance = 9.75,
            speed = 9.75, calories = 797.805\<rparr>,
       get_message \<lparr>training_type = ascii ''SportsWalking'', msg_duration = 1, distance = 5.85,
            speed = 5.85, calories = 349.251747525\<rparr>], None)"
  by (simp add: packages_def read_package_samples main_def
      show_training_info_Swimming_sample show_training_info_Running_sample
      show_training_info_SportsWalking_sample)

section \<open>Distance, mean speed and calories\<close>

text \<open>
  Claim C4. For every workout, \<^verbatim>\<open>get_distance\<close> returns
  \<open>action \<times> LEN_STEP / 1000\<close>, where the step length is 0.65 for Running and
  SportsWalking and 1.38 for Swimming.
\<close>

theorem get_distance_formula:
  "get_distance t = Inr (action t * LEN_STEP t / 1000)
   \<and> LEN_STEP (Running a d w) = 0.65
   \<and> LEN_STEP (SportsWalking a d w h) = 0.65
   \<and> LEN_STEP (Swimming a d w l c) = 1.38"
  by (simp add: get_distance_value)

theorem get_distance_formula_witness:
  "get_distance (Running 15000 1 75) = Inr 9.75
   \<and> get_distance (SportsWalking 9000 1 75 180) = Inr 5.85
   \<and> get_distance (Swimming 720 1 80 25 40) = Inr 0.9936"
  using get_distance_formula [of "Running 15000 1 75"]
    get_distance_formula [of "SportsWalking 9000 1 75 180"]
    get_distance_formula [of "Swimming 720 1 80 25 40"]
  by simp

text \<open>
  Claim C5. For a workout with a positive duration, \<^verbatim>\<open>get_mean_speed\<close> returns the
  distance divided by the duration for Running and SportsWalking, and
  \<open>(length_pool \<times> count_pool / 1000) / duration\<close> for Swimming.
\<close>

theorem get_mean_speed_formula:
  assumes "0 < d"
  shows "(let x = a1 * 0.65 / 1000 in
            get_distance (Running a1 d w1) = Inr x
            \<and> get_mean_speed (Running a1 d w1) = Inr (x / d))
       \<and> (let y = a2 * 0.65 / 1000 in
            get_distance (SportsWalking a2 d w2 h) = Inr y
            \<and> get_mean_speed (SportsWalking a2 d w2 h) = Inr (y / d))
       \<and> get_mean_speed (Swimming a3 d w3 l c) = Inr ((l * c / 1000) / d)"
proof -
  from assms have nz: "d \<noteq> 0" by simp
  show ?thesis
    unfolding Let_def
    using nz
    by (simp only: get_mean_speed_Running get_mean_speed_SportsWalking
        get_mean_speed_Swimming get_distance_value training.sel LEN_STEP.simps simp_thms)
qed

theorem get_mean_speed_formula_witness:
  "(0::rat) < 1
   \<and> get_mean_speed (Running 15000 1 75) = Inr (9.75 / 1)
   \<and> get_mean_speed (SportsWalking 9000 1 75 180) = Inr (5.85 / 1)
   \<and> get_mean_speed (Swimming 720 1 80 25 40) = Inr ((25 * 40 / 1000) / 1)"
  using get_mean_speed_formula [where d = 1 and ?a1.0 = 15000 and ?w1.0 = 75 and ?a2.0 = 9000
      and ?w2.0 = 75 and h = 180 and ?a3.0 = 720 and ?w3.0 = 80 and l = 25 and c = 40]
  by (simp add: Let_def)

text \<open>
  Claim C3. For a Running workout with a positive duration, \<^verbatim>\<open>get_spent_calories\<close>
  returns \<open>(18 \<times> mean_speed + 1.79) \<times> weight / 1000 \<times> duration \<times> 60\<close>, computed
  without rounding. The instance of the claim (action 15000, duration 1, weight 75, mean
  speed 9.75) is the witness below.
\<close>

theorem Running_get_spent_calories_formula:
  assumes "0 < d"
  shows "let ms = a * 0.65 / 1000 / d in
           get_mean_speed (Running a d w) = Inr ms
           \<and> get_spent_calories (Running a d w) = Inr ((18 * ms + 1.79) * w / 1000 * d * 60)"
proof -
  from assms have nz: "d \<noteq> 0" by simp
  show ?thesis
    unfolding Let_def
    using nz
    by (simp add: get_mean_speed_Running Running_get_spent_calories_def truediv_nonzero
        consts_defs del: get_mean_speed.simps)
qed

theorem Running_get_spent_calories_formula_witness:
  "(0::rat) < 1
   \<and> get_mean_speed (Running 15000 1 75) = Inr 9.75
   \<and> get_spent_calories (Running 15000 1 75) = Inr ((18 * 9.75 + 1.79) * 75 / 1000 * 1 * 60)"
  using Running_get_spent_calories_formula [where d = 1 and a = 15000 and w = 75]
  by (simp add: Let_def)

text \<open>
  Claim C6. For a SportsWalking workout with a positive duration and a positive height,
  \<^verbatim>\<open>get_spent_calories\<close> returns
  \<open>(0.035 \<times> weight + ((mean_speed \<times> 0.278)\<^sup>2 / (height / 100)) \<times> 0.029 \<times> weight)
  \<times> duration \<times> 60\<close>. The instance of the claim (action 9000, duration 1, weight 75,
  height 180) is the witness below; the value is rounded to three decimals only when it is
  formatted.
\<close>

theorem SportsWalking_get_spent_calories_formula:
  assumes "0 < d" and "0 < h"
  shows "let ms = a * 0.65 / 1000 / d in
           get_mean_speed (SportsWalking a d w h) = Inr ms
           \<and> get_spent_calories (SportsWalking a d w h)
               = Inr ((0.035 * w + ((ms * 0.278)\<^sup>2 / (h / 100)) * 0.029 * w) * d * 60)"
proof -
  from assms have nz: "d \<noteq> 0" "h \<noteq> 0" by simp_all
  show ?thesis
    unfolding Let_def
    using nz
    by (simp add: get_mean_speed_SportsWalking SportsWalking_get_spent_calories_def
        truediv_nonzero consts_defs del: get_mean_speed.simps)
qed

theorem SportsWalking_get_spent_calories_formula_witness:
  "(0::rat) < 1 \<and> (0::rat) < 180
   \<and> get_mean_speed (SportsWalking 9000 1 75 180) = Inr 5.85
   \<and> get_spent_calories (SportsWalking 9000 1 75 180)
       = Inr ((0.035 * 75 + ((5.85 * 0.278)\<^sup>2 / (180 / 100)) * 0.029 * 75) * 1 * 60)
   \<and> format_3f ((0.035 * 75 + ((5.85 * 0.278)\<^sup>2 / (180 / 100)) * 0.029 * 75) * 1 * 60)
       = ascii ''349.252''"
proof -
  have "format_3f ((0.035 * 75 + ((5.85 * 0.278)\<^sup>2 / (180 / 100)) * 0.029 * 75) * 1 * 60)
       = ascii ''349.252''"
    by (simp add: format_eval)
  then show ?thesis
    using SportsWalking_get_spent_calories_formula
      [where d = 1 and a = 9000 and w = 75 and h = 180]
    by (simp add: Let_def)
qed

text \<open>
  Claim C7. For a Swimming workout with a positive duration, \<^verbatim>\<open>get_spent_calories\<close>
  returns \<open>(mean_speed + 1.1) \<times> 2 \<times> weight \<times> duration\<close>. The instance of the claim
  (action 720, duration 1, weight 80, pool length 25, 40 laps: mean speed 1, calories 336)
  is the witness below.
\<close>

theorem Swimming_get_spent_calories_formula:
  assumes "0 < d"
  shows "let ms = l * c / 1000 / d in
           get_mean_speed (Swimming a d w l c) = Inr ms
           \<and> get_spent_calories (Swimming a d w l c) = Inr ((ms + 1.1) * 2 * w * d)"
proof -
  from assms have nz: "d \<noteq> 0" by simp
  show ?thesis
    unfolding Let_def
    using nz
    by (simp add: get_mean_speed_Swimming Swimming_get_spent_calories_def
        truediv_nonzero consts_defs del: get_mean_speed.simps)
qed

theorem Swimming_get_spent_calories_formula_witness:
  "(0::rat) < 1
   \<and> get_mean_speed (Swimming 720 1 80 25 40) = Inr 1
   \<and> get_spent_calories (Swimming 720 1 80 25 40) = Inr 336"
  using Swimming_get_spent_calories_formula
    [where d = 1 and a = 720 and w = 80 and l = 25 and c = 40]
  by (simp add: Let_def)



text \<open>
  Claim C9. The base method \<^verbatim>\<open>Training.get_spent_calories\<close> raises
  \<^verbatim>\<open>NotImplementedError\<close>. Running, SportsWalking and Swimming each run their own
  override, which never ends in that error, and so does every workout that
  \<^verbatim>\<open>read_package\<close> builds.
\<close>

theorem base_get_spent_calories_not_reached:
  "Training_get_spent_calories t = Inl NotImplementedError
   \<and> get_spent_calories (Training a d w) = Inl NotImplementedError
   \<and> get_spent_calories (Running a d w) = Running_get_spent_calories (Running a d w)
   \<and> get_spent_calories (SportsWalking a d w h)
       = SportsWalking_get_spent_calories (SportsWalking a d w h)
   \<and> get_spent_calories (Swimming a d w l c)
       = Swimming_get_spent_calories (Swimming a d w l c)
   \<and> get_spent_calories (Running a d w) \<noteq> Inl NotImplementedError
   \<and> get_spent_calories (SportsWalking a d w h) \<noteq> Inl NotImplementedError
   \<and> get_spent_calories (Swimming a d w l c) \<noteq> Inl NotImplementedError
   \<and> (read_package workout_type data = Inr t'
        \<longrightarrow> get_spent_calories t' \<noteq> Inl NotImplementedError)"
proof -
  have r: "get_spent_calories (Running a d w) \<noteq> Inl NotImplementedError" for a d w
    using Running_get_spent_calories_error [of "Running a d w" NotImplementedError] by auto
  have s: "get_spent_calories (SportsWalking a d w h) \<noteq> Inl NotImplementedError" for a d w h
    using SportsWalking_get_spent_calories_error [of "SportsWalking a d w h" NotImplementedError]
    by auto
  have m: "get_spent_calories (Swimming a d w l c) \<noteq> Inl NotImplementedError" for a d w l c
    using Swimming_get_spent_calories_error [of "Swimming a d w l c" NotImplementedError]
    by auto
  have "get_spent_calories t' \<noteq> Inl NotImplementedError"
    if "read_package workout_type data = Inr t'"
    using read_package_Inr [OF that] r s m by metis
  then show ?thesis
    using r s m by (simp add: Training_get_spent_calories_def)
qed

theorem base_get_spent_calories_not_reached_witness:
  "get_spent_calories (Training 15000 1 75) = Inl NotImplementedError
   \<and> read_package (ascii ''RUN'') [15000, 0, 75] = Inr (Running 15000 0 75)
   \<and> get_spent_calories (Running 15000 0 75) = Inl ZeroDivisionError
   \<and> get_spent_calories (Running 15000 0 75) \<noteq> Inl NotImplementedError"
proof -
  have p: "read_package (ascii ''RUN'') [15000, 0, 75] = Inr (Running 15000 0 75)"
    by (simp add: read_package_def WORKOUT_TYPES_def construct_def ascii_def)
  have z: "get_spent_calories (Running 15000 0 75) = Inl ZeroDivisionError"
    by (simp add: Running_get_spent_calories_def Training_get_mean_speed_def
        get_distance_value truediv_zero)
  show ?thesis
    using base_get_spent_calories_not_reached
      [where a = 15000 and d = 1 and w = 75 and workout_type = "ascii ''RUN''"
        and data = "[15000, 0, 75]" and t' = "Running 15000 0 75"] p z
    by simp
qed

section \<open>Reading a package\<close>

text \<open>
  Claim C2, as the code has it. \<^verbatim>\<open>read_package\<close> returns a Swimming instance for the
  code SWM when the data sequence has exactly five values, a Running instance for RUN and
  three values, a SportsWalking instance for WLK and four values, built from the values
  in order; with any other number of values the call of the class raises
  \<^verbatim>\<open>TypeError\<close>. For a code outside the three, and every data sequence, it raises
  \<^verbatim>\<open>ValueError\<close>, which nothing catches: the run of the script ends with it.
\<close>

theorem read_package_dispatch:
  "read_package (ascii ''SWM'') data =
     (if length data = 5
      then Inr (Swimming (data ! 0) (data ! 1) (data ! 2) (data ! 3) (data ! 4))
      else Inl TypeError)
   \<and> read_package (ascii ''RUN'') data =
     (if length data = 3 then Inr (Running (data ! 0) (data ! 1) (data ! 2))
      else Inl TypeError)
   \<and> read_package (ascii ''WLK'') data =
     (if length data = 4
      then Inr (SportsWalking (data ! 0) (data ! 1) (data ! 2) (data ! 3))
      else Inl TypeError)
   \<and> (workout_type \<notin> {ascii ''SWM'', ascii ''RUN'', ascii ''WLK''}
        \<longrightarrow> read_package workout_type data = Inl ValueError
          \<and> run ((workout_type, data) # rest) = ([], Some ValueError))"
proof -
  have 1: "read_package (ascii ''SWM'') data = construct Swimming_class data"
    by (simp add: read_package_def WORKOUT_TYPES_def ascii_def)
  have 2: "read_package (ascii ''RUN'') data = construct Running_class data"
    by (simp add: read_package_def WORKOUT_TYPES_def ascii_def)
  have 3: "read_package (ascii ''WLK'') data = construct SportsWalking_class data"
    by (simp add: read_package_def WORKOUT_TYPES_def ascii_def)
  have 4: "read_package workout_type data = Inl ValueError"
    if "workout_type \<notin> {ascii ''SWM'', ascii ''RUN'', ascii ''WLK''}"
  proof -
    from that have "WORKOUT_TYPES workout_type = None"
      by (simp add: WORKOUT_TYPES_None)
    then show ?thesis by (simp add: read_package_def)
  qed
  show ?thesis
    using 4 by (simp add: 1 2 3 construct_Swimming construct_Running construct_SportsWalking)
qed

theorem read_package_dispatch_witness:
  "read_package (ascii ''SWM'') [720, 1, 80, 25, 40] = Inr (Swimming 720 1 80 25 40)
   \<and> read_package (ascii ''RUN'') [15000, 1, 75] = Inr (Running 15000 1 75)
   \<and> read_package (ascii ''WLK'') [9000, 1, 75, 180] = Inr (SportsWalking 9000 1 75 180)
   \<and> ascii ''XYZ'' \<notin> {ascii ''SWM'', ascii ''RUN'', ascii ''WLK''}
   \<and> read_package (ascii ''XYZ'') [720, 1, 80, 25, 40] = Inl ValueError
   \<and> run ((ascii ''XYZ'', [720, 1, 80, 25, 40]) # packages) = ([], Some ValueError)"
proof -
  have n: "ascii ''XYZ'' \<notin> {ascii ''SWM'', ascii ''RUN'', ascii ''WLK''}"
    by (simp add: ascii_def)
  show ?thesis
    using n read_package_dispatch [where data = "[720, 1, 80, 25, 40]"
        and workout_type = "ascii ''XYZ''" and rest = packages]
      read_package_dispatch [where data = "[15000, 1, 75]" and workout_type = "ascii ''SWM''"]
      read_package_dispatch [where data = "[9000, 1, 75, 180]" and workout_type = "ascii ''SWM''"]
    by simp
qed

text \<open>
  The claim as stated, for every data sequence, fails: the code SWM with the three values
  of a Running package raises \<^verbatim>\<open>TypeError\<close>.
\<close>

theorem read_package_wrong_arity_counterexample:
  "read_package (ascii ''SWM'') [15000, 1, 75] = Inl TypeError"
  by (simp add: read_package_def WORKOUT_TYPES_def construct_def ascii_def)

section \<open>The report line\<close>

text \<open>
  Claim C1, as the code has it. \<^verbatim>\<open>get_message\<close> produces the literal pieces of
  \<^verbatim>\<open>MESSAGE\<close> (the labels are Russian) around the class name and the four values, each
  value formatted with \<^verbatim>\<open>.3f\<close>; for a workout whose metrics are computed, \<^verbatim>\<open>main\<close>
  prints this line with the class name, the duration, the distance, the mean speed and
  the calories of the workout; a run of the script that ends without an exception has
  printed one such line per package, in order.
\<close>

theorem report_line_template:
  "get_message m =
     MESSAGE_type @ training_type m
     @ MESSAGE_duration @ format_3f (msg_duration m)
     @ MESSAGE_distance @ format_3f (distance m)
     @ MESSAGE_speed @ format_3f (speed m)
     @ MESSAGE_calories @ format_3f (calories m)
     @ MESSAGE_end
   \<and> (show_training_info t = Inr m' \<longrightarrow>
        main t = Inr (get_message m')
        \<and> training_type m' = class_name t \<and> msg_duration m' = duration t
        \<and> get_distance t = Inr (distance m') \<and> get_mean_speed t = Inr (speed m')
        \<and> get_spent_calories t = Inr (calories m'))
   \<and> (run ps = (lines, None) \<longrightarrow>
        list_all2 (\<lambda>p line. \<exists>t m. read_package (fst p) (snd p) = Inr t
                     \<and> show_training_info t = Inr m \<and> line = get_message m) ps lines)"
proof -
  have "list_all2 (\<lambda>p line. \<exists>t m. read_package (fst p) (snd p) = Inr t
                     \<and> show_training_info t = Inr m \<and> line = get_message m) ps lines"
    if "run ps = (lines, None)"
    using run_lines [OF that]
    by (rule list_all2_mono) (auto dest: bind_main_Inr)
  moreover have "main t = Inr (get_message m')" if "show_training_info t = Inr m'"
    using that by (simp add: main_def)
  ultimately show ?thesis
    using show_training_info_Inr [of t m'] get_message_eq [of m] by blast
qed

theorem report_line_template_witness:
  "main (Swimming 720 1 80 25 40)
     = Inr (MESSAGE_type @ ascii ''Swimming''
            @ MESSAGE_duration @ ascii ''1.000''
            @ MESSAGE_distance @ ascii ''0.994''
            @ MESSAGE_speed @ ascii ''1.000''
            @ MESSAGE_calories @ ascii ''336.000''
            @ MESSAGE_end)
   \<and> length packages = 3 \<and> snd (run packages) = None \<and> length (fst (run packages)) = 3"
proof -
  have f: "format_3f 1 = ascii ''1.000''" "format_3f 0.9936 = ascii ''0.994''"
    "format_3f 336 = ascii ''336.000''"
    by (simp_all add: format_eval)
  let ?m = "\<lparr>training_type = ascii ''Swimming'', msg_duration = 1, distance = 0.9936,
            speed = 1, calories = 336\<rparr>"
  have r: "run packages = (fst (run packages), None)"
    by (simp add: run_packages)
  note t = report_line_template [where m = ?m and m' = ?m and t = "Swimming 720 1 80 25 40"
      and ps = packages and lines = "fst (run packages)"]
  from t r have "list_all2 (\<lambda>p line. \<exists>t m. read_package (fst p) (snd p) = Inr t
                     \<and> show_training_info t = Inr m \<and> line = get_message m)
       packages (fst (run packages))"
    by blast
  then have "length packages = length (fst (run packages))"
    by (rule list_all2_lengthD)
  moreover have "length packages = 3" by (simp add: packages_def)
  moreover have "main (Swimming 720 1 80 25 40) = Inr (get_message ?m)"
    using t show_training_info_Swimming_sample by blast
  ultimately show ?thesis
    using t f r by (simp add: run_packages)
qed

text \<open>
  The claim as stated fails: the line printed for the Swimming package of the script is
  not the English template of the specification filled with the computed values.
\<close>

theorem report_line_template_counterexample:
  "show_training_info (Swimming 720 1 80 25 40)
     = Inr \<lparr>training_type = ascii ''Swimming'', msg_duration = 1, distance = 0.9936,
            speed = 1, calories = 336\<rparr>
   \<and> main (Swimming 720 1 80 25 40)
     \<noteq> Inr (spec_get_message \<lparr>training_type = ascii ''Swimming'', msg_duration = 1,
            distance = 0.9936, speed = 1, calories = 336\<rparr>)"
  by (simp add: show_training_info_Swimming_sample main_def get_message_eq spec_get_message_def
      MESSAGE_type_def ascii_def)



end
